theory Spec2Isabelle
  imports Main "HOL-Library.Sublist"
begin

section \<open>goreq: a fluent HTTP request builder and its execution pipeline\<close>

text \<open>
  A shallow embedding of \<^verbatim>\<open>goreq.go\<close>. The request descriptor \<^verbatim>\<open>Request[T]\<close> is a
  record; the operations that mutate it return the updated record. The header map and
  the \<^verbatim>\<open>*url.URL\<close> are reference values in Go, so they live in an explicit store and
  the descriptor holds their addresses. Panics and errors are values. The collaborators
  from outside the repository (URL parser, \<^verbatim>\<open>http.NewRequest\<close>, the transport,
  decompressors, the JSON decoder) are parameters, collected in a record.
\<close>

subsection \<open>Errors, panics, contexts\<close>

type_synonym bytes = string

text \<open>
  An error value carries its message; \<open>Wrap\<close> is an error with an \<^verbatim>\<open>Unwrap\<close> method.
  \<open>errors_Is\<close> follows the chain as \<^verbatim>\<open>errors.Is\<close> does.
\<close>

datatype error = Error string | Wrap string error

fun error_msg :: "error \<Rightarrow> string" where
  "error_msg (Error m) = m"
| "error_msg (Wrap m e) = m"

fun errors_Is :: "error \<Rightarrow> error \<Rightarrow> bool" where
  "errors_Is (Error m) t = (Error m = t)"
| "errors_Is (Wrap m e) t = (Wrap m e = t \<or> errors_Is e t)"

text \<open>A Go call either panics or returns.\<close>

datatype 'a outcome = Panic string | Ok 'a

definition nil_deref :: string where
  "nil_deref = ''invalid memory address or nil pointer dereference''"

text \<open>
  A \<^verbatim>\<open>context.Context\<close> as far as the code reads it: \<^verbatim>\<open>Err()\<close> and the cancellation
  cause. \<open>cancel_cause c e\<close> is \<^verbatim>\<open>context.WithCancelCause(c)\<close> followed by
  \<^verbatim>\<open>cancel(e)\<close>: a context that is already done keeps its error and cause.
\<close>

record Context =
  ctx_Err :: "error option"
  ctx_Cause :: "error option"

definition Canceled :: error where
  "Canceled = Error ''context canceled''"

definition Background :: Context where
  "Background = \<lparr>ctx_Err = None, ctx_Cause = None\<rparr>"

definition cancel_cause :: "Context \<Rightarrow> error \<Rightarrow> Context" where
  "cancel_cause c e =
     (if ctx_Err c \<noteq> None then c
      else \<lparr>ctx_Err = Some Canceled, ctx_Cause = Some e\<rparr>)"

subsection \<open>HTTP values\<close>

type_synonym header_map = "string \<rightharpoonup> string list"

type_synonym cookie_t = "string \<times> string"

text \<open>
  \<^verbatim>\<open>url.Values\<close>: a key that is absent and a key with no value are the same for
  \<^verbatim>\<open>Get\<close>, \<^verbatim>\<open>Add\<close> and \<^verbatim>\<open>Encode\<close>, so a value list per key is enough.
\<close>

type_synonym values_t = "string \<Rightarrow> string list"

definition Values_Get :: "values_t \<Rightarrow> string \<Rightarrow> string" where
  "Values_Get q k = (case q k of [] \<Rightarrow> [] | x # _ \<Rightarrow> x)"

definition Values_Set :: "values_t \<Rightarrow> string \<Rightarrow> string \<Rightarrow> values_t" where
  "Values_Set q k v = q(k := [v])"

definition Values_Add :: "values_t \<Rightarrow> string \<Rightarrow> string \<Rightarrow> values_t" where
  "Values_Add q k v = q(k := q k @ [v])"

text \<open>
  A \<^verbatim>\<open>url.URL\<close>. \<^verbatim>\<open>RawQuery\<close> is kept in parsed form: \<^verbatim>\<open>u.Query()\<close> reads it and
  \<^verbatim>\<open>q.Encode()\<close> writes it back, and parsing an encoded query returns the values that
  were encoded.
\<close>

record url =
  Base :: string
  Path :: string
  RawQuery :: values_t

text \<open>
  A stream (\<^verbatim>\<open>io.Reader\<close>) is what reading it to the end delivers: the bytes, and
  the error that ended it (\<open>None\<close> for a clean end of file).
\<close>

type_synonym reader = "bytes \<times> error option"

record http_request =
  req_Method :: string
  req_URL :: "url option"
  req_Header :: header_map
  req_Body :: "bytes option"

definition zero_request :: http_request where
  "zero_request = \<lparr>req_Method = [], req_URL = None, req_Header = Map.empty, req_Body = None\<rparr>"

record response =
  Status :: string
  StatusCode :: int
  resp_Header :: header_map
  resp_Body :: reader
  resp_Cookies :: "cookie_t list"

text \<open>\<^verbatim>\<open>Header.Get\<close>: the first value of the key, or the empty string.\<close>

definition Header_Get :: "header_map \<Rightarrow> string \<Rightarrow> string" where
  "Header_Get h k = (case h k of Some (x # _) \<Rightarrow> x | _ \<Rightarrow> [])"

text \<open>
  The transport behind \<^verbatim>\<open>client.Do\<close> is opaque and may answer every call
  differently: it is a function of the number of calls made before and of the request.
\<close>

datatype client_t = HttpClient (Do: "nat \<Rightarrow> http_request \<Rightarrow> response option \<times> error option")

subsection \<open>Retry policies\<close>

record DefaultRetryOptions =
  Count :: int
  HttpErrors :: "error list"
  HttpStatusCodes :: "int list"

definition inStatusCode :: "DefaultRetryOptions \<Rightarrow> int \<Rightarrow> bool" where
  "inStatusCode d statusCode =
     (if length (HttpStatusCodes d) = 0 then True
      else list_ex (\<lambda>code. statusCode = code) (HttpStatusCodes d))"

definition inHttpError :: "DefaultRetryOptions \<Rightarrow> error option \<Rightarrow> bool" where
  "inHttpError d e =
     (case e of
        None \<Rightarrow> False
      | Some x \<Rightarrow>
          (if length (HttpErrors d) = 0 then True
           else list_ex (\<lambda>httpErr. errors_Is x httpErr) (HttpErrors d)))"

definition DefaultRetryOptions_Repeat ::
  "DefaultRetryOptions \<Rightarrow> response option \<Rightarrow> error option \<Rightarrow> bool" where
  "DefaultRetryOptions_Repeat d resp e =
     (case resp of
        None \<Rightarrow> inHttpError d e
      | Some rs \<Rightarrow> inHttpError d e \<and> inStatusCode d (StatusCode rs))"

text \<open>
  \<^verbatim>\<open>Sleep\<close> returns whether another attempt is allowed; the wait itself
  (\<^verbatim>\<open>counter\<close> seconds) has no value to model. The counter is Go's \<^verbatim>\<open>int\<close>, taken
  unbounded here.
\<close>

definition DefaultRetryOptions_Sleep :: "DefaultRetryOptions \<Rightarrow> int \<Rightarrow> bool outcome" where
  "DefaultRetryOptions_Sleep d counter = (if counter > Count d then Ok False else Ok True)"

definition emptyOptions_Repeat :: "response option \<Rightarrow> error option \<Rightarrow> bool" where
  "emptyOptions_Repeat resp e = False"

definition emptyOptions_Sleep :: "int \<Rightarrow> bool outcome" where
  "emptyOptions_Sleep counter = Panic ''not implemented''"

text \<open>
  The interface \<^verbatim>\<open>RetryOptions\<close> with its two implementations in the repository and
  a caller's own implementation, given by its two methods.
\<close>

datatype RetryOptions =
    DefaultRetry DefaultRetryOptions
  | emptyOptions
  | CustomRetry "response option \<Rightarrow> error option \<Rightarrow> bool" "int \<Rightarrow> bool"

fun Repeat :: "RetryOptions \<Rightarrow> response option \<Rightarrow> error option \<Rightarrow> bool" where
  "Repeat (DefaultRetry d) resp e = DefaultRetryOptions_Repeat d resp e"
| "Repeat emptyOptions resp e = emptyOptions_Repeat resp e"
| "Repeat (CustomRetry rp sl) resp e = rp resp e"

fun Sleep :: "RetryOptions \<Rightarrow> int \<Rightarrow> bool outcome" where
  "Sleep (DefaultRetry d) counter = DefaultRetryOptions_Sleep d counter"
| "Sleep emptyOptions counter = emptyOptions_Sleep counter"
| "Sleep (CustomRetry rp sl) counter = Ok (sl counter)"

subsection \<open>The result type and the byte decoder\<close>

text \<open>
  The type parameter \<^verbatim>\<open>T\<close> of \<^verbatim>\<open>Request[T]\<close> and the values of the result variable
  \<^verbatim>\<open>t\<close>. \<open>TOther\<close> stands for every type the type switches do not name.
\<close>

datatype go_type = TBytes | TString | TInt | TBool | TPtr go_type | TOther string

datatype go_value = VBytes bytes | VString string | VInt int | VBool bool | VNil | VOther string

fun zero_value :: "go_type \<Rightarrow> go_value" where
  "zero_value TBytes = VBytes []"
| "zero_value TString = VString []"
| "zero_value TInt = VInt 0"
| "zero_value TBool = VBool False"
| "zero_value (TPtr ty) = VNil"
| "zero_value (TOther n) = VOther []"

text \<open>
  \<^verbatim>\<open>checkType(t)\<close> switches on the dynamic type of the zero value of \<^verbatim>\<open>T\<close>, which is
  \<^verbatim>\<open>T\<close>; the result is the new value of \<^verbatim>\<open>isJson\<close>.
\<close>

fun checkType :: "go_type \<Rightarrow> bool" where
  "checkType (TPtr TBytes) = False"
| "checkType TBytes = False"
| "checkType (TPtr TString) = False"
| "checkType TString = False"
| "checkType TInt = False"
| "checkType (TPtr TInt) = False"
| "checkType ty = True"

text \<open>\<^verbatim>\<open>strconv.ParseBool\<close>, as the standard library defines it.\<close>

definition strconv_ParseBool :: "string \<Rightarrow> error + bool" where
  "strconv_ParseBool str =
     (if str \<in> set [''1'', ''t'', ''T'', ''TRUE'', ''true'', ''True''] then Inr True
      else if str \<in> set [''0'', ''f'', ''F'', ''FALSE'', ''false'', ''False''] then Inr False
      else Inl (Error (''strconv.ParseBool: parsing '' @ str @ '': invalid syntax'')))"

text \<open>
  \<^verbatim>\<open>any(t, dt)\<close>: the first argument is the dynamic type of the interface value \<^verbatim>\<open>t\<close>,
  the second the value of the variable it points to when it is a pointer; the result is
  that variable afterwards and the returned error. In the cases \<^verbatim>\<open>int\<close> and \<^verbatim>\<open>bool\<close> the
  statement asserts \<^verbatim>\<open>t.(*int)\<close> (\<^verbatim>\<open>t.(*bool)\<close>) on a value whose dynamic type is not a
  pointer, and the assertion panics whatever the parse returns. In the default case the
  assignment \<^verbatim>\<open>t = dt\<close> changes the local interface variable only.
\<close>

fun any :: "go_type \<Rightarrow> go_value \<Rightarrow> bytes \<Rightarrow> (go_value \<times> error option) outcome" where
  "any (TPtr TBytes) v dt = Ok (VBytes dt, None)"
| "any (TPtr TString) v dt = Ok (VString dt, None)"
| "any TInt v dt = Panic ''interface conversion: interface {} is int, not *int''"
| "any TBool v dt = Panic ''interface conversion: interface {} is bool, not *bool''"
| "any (TPtr TBool) v dt =
     (case strconv_ParseBool dt of
        Inl e \<Rightarrow> Ok (VBool False, Some e)
      | Inr b \<Rightarrow> Ok (VBool b, None))"
| "any ty v dt = Ok (v, None)"

subsection \<open>The descriptor and the store\<close>

text \<open>
  The multipart builder as the descriptor sees it at materialisation: its context, and
  what closing its writer gives (the error of \<^verbatim>\<open>Close\<close>, the content type, the payload).
  A builder to which nothing was added, whose writer and context are still nil, is left
  out.
\<close>

record Multipart =
  mp_Ctx :: Context
  mp_CloseErr :: "error option"
  mp_ContentType :: string
  mp_Data :: bytes

type_synonym addr = nat

text \<open>
  \<^verbatim>\<open>Request[T]\<close>. \<open>u\<close> and \<open>headers\<close> are addresses into the store (\<open>u\<close> is \<open>None\<close> for
  the nil pointer). The pointers \<open>client\<close>, \<open>multipart\<close>, \<open>retBody\<close>, \<open>finalReq\<close> and
  \<open>lastResponse\<close> carry the value they point to (\<open>None\<close> for nil). The fields that no
  function of the package assigns (\<^verbatim>\<open>link\<close>, \<^verbatim>\<open>data\<close>, \<^verbatim>\<open>dataReader\<close>, \<^verbatim>\<open>result\<close>,
  \<^verbatim>\<open>timeouts\<close>, \<^verbatim>\<open>repeatStatusCodes\<close>, \<^verbatim>\<open>repeatHttpErrors\<close>) are left out, and so is
  \<^verbatim>\<open>proxy\<close>, which only \<^verbatim>\<open>Proxy\<close> uses.
  \<open>resultType\<close> is the type parameter.
\<close>

record Request =
  ctx :: Context
  u :: "addr option"
  "method" :: string
  headers :: addr
  client :: "client_t option"
  body :: bytes
  multipart :: "Multipart option"
  isJson :: bool
  retBody :: "bytes option"
  finalReq :: "http_request option"
  retryOptions :: RetryOptions
  err :: "error option"
  lastResponse :: "response option"
  cookie :: "cookie_t list"
  resultType :: go_type

text \<open>
  The store: the header maps and URLs by address, the next free address, and the trace of
  the two effects the claims count: the number of calls of \<^verbatim>\<open>client.Do\<close> and the counters
  passed to \<^verbatim>\<open>Sleep\<close>.
\<close>

record world =
  hmaps :: "addr \<Rightarrow> header_map"
  urls :: "addr \<Rightarrow> url"
  fresh :: addr
  calls :: nat
  sleeps :: "int list"

text \<open>The collaborators from outside the repository.\<close>

record env =
  url_Parse :: "string \<Rightarrow> error + url"
  http_NewRequest :: "string \<Rightarrow> url \<Rightarrow> bytes option \<Rightarrow> error + http_request"
  DefaultClient :: client_t
  zstd_NewReader :: "reader \<Rightarrow> error + reader"
  brotli_NewReader :: "reader \<Rightarrow> reader"
  gzip_NewReader :: "reader \<Rightarrow> error + reader"
  json_Decode :: "go_type \<Rightarrow> reader \<Rightarrow> go_value \<times> error option \<times> bytes"

definition contextErr :: "Request \<Rightarrow> error option \<Rightarrow> Request" where
  "contextErr r e =
     (case e of
        None \<Rightarrow> r
      | Some x \<Rightarrow> r\<lparr>ctx := cancel_cause (ctx r) x\<rparr>)"

definition default_headers :: header_map where
  "default_headers =
     [''Accept-Encoding'' \<mapsto> [''deflate,gzip,zstd,br''],
      ''User-Agent'' \<mapsto> [''SomniSom-goreq/1.0'']]"

text \<open>\<^verbatim>\<open>New[T](ctx, link)\<close>: \<open>ty\<close> is \<^verbatim>\<open>T\<close>.\<close>

definition New :: "env \<Rightarrow> go_type \<Rightarrow> Context \<Rightarrow> string \<Rightarrow> world \<Rightarrow> Request \<times> world" where
  "New ev ty c link w =
     (let ha = fresh w;
          w1 = w\<lparr>hmaps := (hmaps w)(ha := default_headers), fresh := ha + 1\<rparr>;
          r = \<lparr>ctx = c, u = None, method = ''GET'', headers = ha,
               client = Some (DefaultClient ev), body = [], multipart = None,
               isJson = checkType ty, retBody = None, finalReq = None,
               retryOptions = emptyOptions, err = None, lastResponse = None,
               cookie = [], resultType = ty\<rparr>
      in case url_Parse ev link of
           Inl e \<Rightarrow> (contextErr (r\<lparr>err := Some e\<rparr>) (Some e), w1)
         | Inr x \<Rightarrow>
             (r\<lparr>u := Some (fresh w1)\<rparr>,
              w1\<lparr>urls := (urls w1)(fresh w1 := x), fresh := fresh w1 + 1\<rparr>))"

text \<open>
  \<^verbatim>\<open>Clone\<close>: \<^verbatim>\<open>*rq = *r\<close> copies every field, the addresses of the header map and of
  the URL among them. The assignments through \<^verbatim>\<open>rq.finalReq\<close>, \<^verbatim>\<open>rq.retBody\<close>,
  \<^verbatim>\<open>rq.client\<close> and \<^verbatim>\<open>rq.lastResponse\<close> copy an object onto itself, since the pointers
  were copied first; \<^verbatim>\<open>r.data\<close> is never set, so its branch is not taken.
\<close>

definition Clone :: "Request \<Rightarrow> Request" where
  "Clone r =
     (let rq = r
      in if finalReq r \<noteq> None then rq else rq\<lparr>finalReq := Some zero_request\<rparr>)"

subsection \<open>Configuration operations\<close>

text \<open>
  Each operation returns the descriptor it was called on. Those that write through
  \<open>u\<close> or \<open>headers\<close> also return the store; those that read through \<open>u\<close> panic on the
  nil pointer.
\<close>

definition Client :: "client_t option \<Rightarrow> Request \<Rightarrow> Request" where
  "Client cl r = (if ctx_Err (ctx r) \<noteq> None then r else r\<lparr>client := cl\<rparr>)"

definition Path_op :: "string \<Rightarrow> Request \<Rightarrow> world \<Rightarrow> (Request \<times> world) outcome" where
  "Path_op p r w =
     (if ctx_Err (ctx r) \<noteq> None then Ok (r, w)
      else case u r of
             None \<Rightarrow> Panic nil_deref
           | Some a \<Rightarrow> Ok (r, w\<lparr>urls := (urls w)(a := (urls w a)\<lparr>Path := p\<rparr>)\<rparr>))"

definition Cookie :: "cookie_t list \<Rightarrow> Request \<Rightarrow> Request" where
  "Cookie c r = r\<lparr>cookie := c\<rparr>"

text \<open>
  The loop of \<^verbatim>\<open>Params\<close>. With one element left the code adds the key with an empty value
  and then takes \<^verbatim>\<open>attr[0:]\<close>, which is \<^verbatim>\<open>attr\<close> again: it would not leave the loop
  (\<open>None\<close>). \<^verbatim>\<open>Params\<close> rejects an odd number of arguments before the loop.
\<close>

fun params_loop :: "values_t \<Rightarrow> string list \<Rightarrow> values_t option" where
  "params_loop q [] = Some q"
| "params_loop q [k] = None"
| "params_loop q (k # v # rest) =
     params_loop (if Values_Get q k \<noteq> [] then Values_Set q k v else Values_Add q k v) rest"

definition Params :: "string list \<Rightarrow> Request \<Rightarrow> world \<Rightarrow> (Request \<times> world) outcome option" where
  "Params attr r w =
     (if ctx_Err (ctx r) \<noteq> None then Some (Ok (r, w))
      else case u r of
             None \<Rightarrow> Some (Panic nil_deref)
           | Some a \<Rightarrow>
               (let q = RawQuery (urls w a)
                in if length attr mod 2 \<noteq> 0 then
                     (let r1 = r\<lparr>err := Some (Error ''incompatible query parameter'')\<rparr>
                      in Some (Ok (contextErr r1 (err r1), w)))
                   else
                     (case params_loop q attr of
                        None \<Rightarrow> None
                      | Some q1 \<Rightarrow>
                          Some (Ok (r, w\<lparr>urls := (urls w)(a := (urls w a)\<lparr>RawQuery := q1\<rparr>)\<rparr>)))))"

text \<open>\<^verbatim>\<open>m[k] = append(m[k], v)\<close> on a Go map.\<close>

definition map_append :: "header_map \<Rightarrow> string \<Rightarrow> string \<Rightarrow> header_map" where
  "map_append h k v = h(k \<mapsto> (case h k of None \<Rightarrow> [] | Some vs \<Rightarrow> vs) @ [v])"

fun headers_loop :: "header_map \<Rightarrow> string list \<Rightarrow> header_map" where
  "headers_loop h [] = h"
| "headers_loop h [k] = map_append h k []"
| "headers_loop h (k # v # rest) = headers_loop (map_append h k v) rest"

definition Headers :: "string list \<Rightarrow> Request \<Rightarrow> world \<Rightarrow> Request \<times> world" where
  "Headers attr r w =
     (if ctx_Err (ctx r) \<noteq> None then (r, w)
      else (r, w\<lparr>hmaps := (hmaps w)(headers r := headers_loop (hmaps w (headers r)) attr)\<rparr>))"

definition standard_methods :: "string list" where
  "standard_methods =
     [''GET'', ''POST'', ''CONNECT'', ''DELETE'', ''OPTIONS'', ''PATCH'', ''TRACE'', ''HEAD'',
      ''PUT'']"

text \<open>The membership test of \<^verbatim>\<open>Method\<close> reads \<^verbatim>\<open>r.method\<close>, the method held so far.\<close>

definition Method :: "string \<Rightarrow> Request \<Rightarrow> Request" where
  "Method m r =
     (if ctx_Err (ctx r) \<noteq> None then r
      else
        (let r1 =
               (if \<not> List.member standard_methods (method r) then
                  (let r0 = r\<lparr>err := Some (Error ''method incorrect'')\<rparr>
                   in contextErr r0 (err r0))
                else r)
         in r1\<lparr>method := m\<rparr>))"

text \<open>\<^verbatim>\<open>BodyJson\<close>: \<open>js\<close> is what \<^verbatim>\<open>json.Marshal(dt)\<close> returns.\<close>

definition BodyJson :: "error + bytes \<Rightarrow> Request \<Rightarrow> world \<Rightarrow> Request \<times> world" where
  "BodyJson js r w =
     (if ctx_Err (ctx r) \<noteq> None then (r, w)
      else
        (let r1 = (case js of
                     Inl e \<Rightarrow> r\<lparr>body := [], err := Some e\<rparr>
                   | Inr b \<Rightarrow> r\<lparr>body := b, err := None\<rparr>);
             r2 = contextErr r1 (err r1);
             (r3, w1) = Headers [''Content-Type'', ''application/json''] r2 w
         in (r3\<lparr>method := ''POST''\<rparr>, w1)))"

definition BodyMultipart :: "Multipart option \<Rightarrow> Request \<Rightarrow> Request" where
  "BodyMultipart m r =
     (if ctx_Err (ctx r) \<noteq> None then r else r\<lparr>method := ''POST'', multipart := m\<rparr>)"

definition BodyRaw :: "bytes \<Rightarrow> Request \<Rightarrow> Request" where
  "BodyRaw raw r =
     (if ctx_Err (ctx r) \<noteq> None then r else r\<lparr>method := ''POST'', body := raw\<rparr>)"

definition ToBody :: "bytes option \<Rightarrow> Request \<Rightarrow> Request" where
  "ToBody b r =
     (if ctx_Err (ctx r) \<noteq> None then r
      else if b = None then r
      else r\<lparr>retBody := b\<rparr>)"

definition Retry :: "RetryOptions \<Rightarrow> Request \<Rightarrow> Request" where
  "Retry options r = (if ctx_Err (ctx r) \<noteq> None then r else r\<lparr>retryOptions := options\<rparr>)"

subsection \<open>Materialising the wire request\<close>

text \<open>
  \<^verbatim>\<open>Multipart.make\<close>: closes the writer; on failure the error is latched on the builder's
  context and nothing is returned. The deferred \<^verbatim>\<open>Reset\<close> empties the builder's buffer.
\<close>

definition Multipart_make :: "Multipart \<Rightarrow> (string \<times> bytes) \<times> Multipart" where
  "Multipart_make m =
     (case mp_CloseErr m of
        Some e \<Rightarrow> (([], []), m\<lparr>mp_Ctx := cancel_cause (mp_Ctx m) e, mp_Data := []\<rparr>)
      | None \<Rightarrow> ((mp_ContentType m, mp_Data m), m\<lparr>mp_Data := []\<rparr>))"

text \<open>
  \<^verbatim>\<open>Request.AddCookie\<close> of \<^verbatim>\<open>net/http\<close>: the cookie is appended to the \<^verbatim>\<open>Cookie\<close>
  header (the sanitising of name and value is left out).
\<close>

definition AddCookie :: "http_request \<Rightarrow> cookie_t \<Rightarrow> http_request" where
  "AddCookie q c =
     (let s = fst c @ ''='' @ snd c;
          old = Header_Get (req_Header q) ''Cookie''
      in q\<lparr>req_Header :=
             (req_Header q)(''Cookie'' \<mapsto> [if old \<noteq> [] then old @ ''; '' @ s else s])\<rparr>)"

text \<open>
  The assignment \<^verbatim>\<open>r.finalReq, r.err = http.NewRequest(...)\<close>: on failure the request
  is nil.
\<close>

definition assign_NewRequest :: "Request \<Rightarrow> error + http_request \<Rightarrow> Request" where
  "assign_NewRequest r res =
     (case res of
        Inl e \<Rightarrow> r\<lparr>finalReq := None, err := Some e\<rparr>
      | Inr q \<Rightarrow> r\<lparr>finalReq := Some q, err := None\<rparr>)"

text \<open>
  The "fix http method" step: \<^verbatim>\<open>r.finalReq.Method\<close> is read, and on a descriptor whose
  \<^verbatim>\<open>finalReq\<close> is still nil that read panics.
\<close>

definition fix_method :: "Request \<Rightarrow> Request outcome" where
  "fix_method r =
     (case finalReq r of
        None \<Rightarrow> Panic nil_deref
      | Some q \<Rightarrow>
          Ok (if req_Method q = ''GET'' then r\<lparr>finalReq := Some (q\<lparr>req_Method := ''POST''\<rparr>)\<rparr>
              else r))"

text \<open>The end of \<^verbatim>\<open>makeRequest\<close>, after the three-way choice of the body.\<close>

definition attach :: "Request \<Rightarrow> world \<Rightarrow> (Request \<times> error option) outcome" where
  "attach r w =
     (if err r \<noteq> None then Ok (contextErr r (err r), err r)
      else case finalReq r of
             None \<Rightarrow> Panic nil_deref
           | Some q \<Rightarrow>
               (let q1 = (if length (cookie r) > 0 then foldl AddCookie q (cookie r) else q);
                    q2 = q1\<lparr>req_Header := req_Header q1 ++ hmaps w (headers r)\<rparr>
                in Ok (r\<lparr>finalReq := Some q2\<rparr>, None)))"

definition makeRequest :: "env \<Rightarrow> Request \<Rightarrow> world \<Rightarrow> (Request \<times> error option) outcome" where
  "makeRequest ev r w =
     (if length (body r) > 0 then
        (case fix_method r of
           Panic msg \<Rightarrow> Panic msg
         | Ok r1 \<Rightarrow>
             (case u r1 of
                None \<Rightarrow> Panic nil_deref
              | Some a \<Rightarrow>
                  attach (assign_NewRequest r1
                            (http_NewRequest ev (method r1) (urls w a) (Some (body r1)))) w))
      else
        (case multipart r of
           Some m0 \<Rightarrow>
             (case fix_method r of
                Panic msg \<Rightarrow> Panic msg
              | Ok r1 \<Rightarrow>
                  (let ((ctt, dt), m) = Multipart_make m0;
                       r2 = r1\<lparr>multipart := Some m\<rparr>
                   in if ctx_Err (mp_Ctx m) \<noteq> None then
                        Ok (contextErr r2 (ctx_Err (mp_Ctx m)), ctx_Err (mp_Ctx m))
                      else
                        (case u r2 of
                           None \<Rightarrow> Panic nil_deref
                         | Some a \<Rightarrow>
                             (let r3 = assign_NewRequest r2
                                         (http_NewRequest ev (method r2) (urls w a) (Some dt))
                              in case finalReq r3 of
                                   None \<Rightarrow> Panic nil_deref
                                 | Some q \<Rightarrow>
                                     attach
                                       (r3\<lparr>finalReq :=
                                             Some (q\<lparr>req_Header :=
                                                       (req_Header q)(''Content-Type'' \<mapsto> [ctt])\<rparr>)\<rparr>)
                                       w))))
         | None \<Rightarrow>
             (case u r of
                None \<Rightarrow> Panic nil_deref
              | Some a \<Rightarrow>
                  attach (assign_NewRequest r (http_NewRequest ev (method r) (urls w a) None)) w)))"

subsection \<open>The transport call and the retry loop\<close>

text \<open>
  \<^verbatim>\<open>request()\<close>: one call of \<^verbatim>\<open>client.Do\<close>, counted in the store; an error drops the
  response.
\<close>

definition request :: "Request \<Rightarrow> world \<Rightarrow> ((response option \<times> error option) \<times> world) outcome"
  where
  "request r w =
     (case client r of
        None \<Rightarrow> Panic nil_deref
      | Some c \<Rightarrow>
          (case finalReq r of
             None \<Rightarrow> Panic nil_deref
           | Some q \<Rightarrow>
               (let (resp, e) = Do c (calls w) q;
                    w1 = w\<lparr>calls := calls w + 1\<rparr>
                in if e \<noteq> None then Ok ((None, e), w1) else Ok ((resp, None), w1))))"

text \<open>
  The loop \<^verbatim>\<open>for resp, r.err = r.request(); r.retryOptions.Repeat(resp, r.err); { ... }\<close>
  after its init statement, which \<open>Fetch\<close> runs once before it. The loop has no post
  statement and its body assigns neither \<^verbatim>\<open>resp\<close> nor \<^verbatim>\<open>r.err\<close>: an iteration tests the
  condition on the same response and error and, unless it leaves, calls \<^verbatim>\<open>Sleep(cnt)\<close>
  and increments \<^verbatim>\<open>cnt\<close>. The function returns how the loop was left and the store;
  \<open>None\<close> is a loop that never ends.
\<close>

datatype loop_exit = LoopReturn | LoopPanic string | LoopDone

partial_function (option) retry_loop ::
  "RetryOptions \<Rightarrow> response option \<Rightarrow> error option \<Rightarrow> int \<Rightarrow> world \<Rightarrow> (loop_exit \<times> world) option"
  where
  "retry_loop ro resp e cnt w =
     (if Repeat ro resp e then
        (if e \<noteq> None \<or> resp = None then Some (LoopReturn, w)
         else
           (case Sleep ro cnt of
              Panic msg \<Rightarrow> Some (LoopPanic msg, w\<lparr>sleeps := sleeps w @ [cnt]\<rparr>)
            | Ok b \<Rightarrow>
                (if \<not> b then Some (LoopDone, w\<lparr>sleeps := sleeps w @ [cnt]\<rparr>)
                 else retry_loop ro resp e (cnt + 1) (w\<lparr>sleeps := sleeps w @ [cnt]\<rparr>))))
      else Some (LoopDone, w))"

subsection \<open>After the loop: decompression, tee, cookies, decoding, status\<close>

definition select_reader :: "env \<Rightarrow> response \<Rightarrow> error + reader" where
  "select_reader ev resp =
     (let enc = Header_Get (resp_Header resp) ''Content-Encoding''
      in if enc = ''zstd'' then zstd_NewReader ev (resp_Body resp)
         else if enc = ''br'' then Inr (brotli_NewReader ev (resp_Body resp))
         else if enc = ''gzip'' then gzip_NewReader ev (resp_Body resp)
         else Inr (resp_Body resp))"

text \<open>The tee: what is read from the stream is appended to the buffer, when there is one.\<close>

definition tee :: "bytes option \<Rightarrow> bytes \<Rightarrow> bytes option" where
  "tee b dt = (case b of None \<Rightarrow> None | Some old \<Rightarrow> Some (old @ dt))"

definition bad_status :: "response \<Rightarrow> bool" where
  "bad_status resp = (StatusCode resp < 200 \<or> StatusCode resp \<ge> 300)"

definition status_error :: "response \<Rightarrow> error option \<Rightarrow> error" where
  "status_error resp e =
     (case e of
        Some x \<Rightarrow>
          Error (Status resp @ '': status code incorrect, error decode body: '' @ error_msg x
                 @ [CHR 0x0A])
      | None \<Rightarrow> Error (Status resp @ '': status code incorrect''))"

datatype fetch_result = Panicked string world | Returned go_value "error option" Request world

text \<open>
  \<open>latch\<close> is the pair \<^verbatim>\<open>r.err = e; r.contextErr(r.err)\<close>.
\<close>

definition latch :: "Request \<Rightarrow> error option \<Rightarrow> Request" where
  "latch r e = contextErr (r\<lparr>err := e\<rparr>) e"

text \<open>The part of \<^verbatim>\<open>Fetch\<close> after the loop, for a response that is not nil.\<close>

definition finish :: "env \<Rightarrow> Request \<Rightarrow> response \<Rightarrow> world \<Rightarrow> fetch_result" where
  "finish ev r resp w =
     (let t0 = zero_value (resultType r);
          r1 = r\<lparr>lastResponse := Some resp\<rparr>
      in if err r1 \<noteq> None then Returned t0 (err r1) (contextErr r1 (err r1)) w
         else
           (case select_reader ev resp of
              Inl e \<Rightarrow> Returned t0 (Some e) (latch r1 (Some e)) w
            | Inr rdr \<Rightarrow>
                (let r2 = r1\<lparr>cookie := resp_Cookies resp\<rparr>
                 in if isJson r2 then
                      (let (t, de, used) = json_Decode ev (resultType r2) rdr;
                           r3 = r2\<lparr>err := de, retBody := tee (retBody r2) used\<rparr>
                       in if bad_status resp then
                            Returned t (Some (status_error resp de))
                              (latch r3 (Some (status_error resp de))) w
                          else Returned t de r3 w)
                    else
                      (let (dt, re) = rdr;
                           r3 = r2\<lparr>err := re, retBody := tee (retBody r2) dt\<rparr>
                       in if re \<noteq> None then Returned t0 re (contextErr r3 re) w
                          else
                            (case any (TPtr (resultType r3)) t0 dt of
                               Panic msg \<Rightarrow> Panicked msg w
                             | Ok (t, ae) \<Rightarrow>
                                 (let r4 = r3\<lparr>err := ae\<rparr>
                                  in if ae \<noteq> None then Returned t ae (contextErr r4 ae) w
                                     else if bad_status resp then
                                       Returned t (Some (status_error resp (err r4)))
                                         (latch r4 (Some (status_error resp (err r4)))) w
                                     else Returned t (err r4) r4 w))))))"

subsection \<open>Fetch\<close>

text \<open>\<open>None\<close> is a call that does not return because the retry loop does not end.\<close>

definition Fetch :: "env \<Rightarrow> Request \<Rightarrow> world \<Rightarrow> fetch_result option" where
  "Fetch ev r w =
     (let t0 = zero_value (resultType r)
      in if err r \<noteq> None then Some (Returned t0 (err r) r w)
         else if ctx_Err (ctx r) \<noteq> None then Some (Returned t0 (ctx_Err (ctx r)) r w)
         else
           (case makeRequest ev r w of
              Panic msg \<Rightarrow> Some (Panicked msg w)
            | Ok (r1, Some e) \<Rightarrow> Some (Returned t0 (Some e) (contextErr r1 (Some e)) w)
            | Ok (r1, None) \<Rightarrow>
                (case request r1 w of
                   Panic msg \<Rightarrow> Some (Panicked msg w)
                 | Ok ((resp, e), w1) \<Rightarrow>
                     (let r2 = r1\<lparr>err := e\<rparr>
                      in case retry_loop (retryOptions r2) resp (err r2) 1 w1 of
                           None \<Rightarrow> None
                         | Some (LoopPanic msg, w2) \<Rightarrow> Some (Panicked msg w2)
                         | Some (LoopReturn, w2) \<Rightarrow>
                             Some (Returned t0 (err r2) (contextErr r2 (err r2)) w2)
                         | Some (LoopDone, w2) \<Rightarrow>
                             (case resp of
                                None \<Rightarrow> Some (Returned t0 (err r2) r2 w2)
                              | Some rs \<Rightarrow> Some (finish ev r2 rs w2))))))"

subsection \<open>Reading results\<close>

definition returned :: "fetch_result option \<Rightarrow> (go_value \<times> error option) option" where
  "returned res = (case res of Some (Returned t e r w) \<Rightarrow> Some (t, e) | _ \<Rightarrow> None)"

fun result_world :: "fetch_result \<Rightarrow> world" where
  "result_world (Panicked msg w) = w"
| "result_world (Returned t e r w) = w"

text \<open>The trace after a call of \<open>Fetch\<close>: transport calls made so far, counters given to \<open>Sleep\<close>.\<close>

definition calls_after :: "fetch_result option \<Rightarrow> nat option" where
  "calls_after res = map_option (\<lambda>x. calls (result_world x)) res"

definition sleeps_after :: "fetch_result option \<Rightarrow> int list option" where
  "sleeps_after res = map_option (\<lambda>x. sleeps (result_world x)) res"

text \<open>The values of a key in the query of the descriptor an operation returned.\<close>

definition query_of :: "(Request \<times> world) outcome option \<Rightarrow> string \<Rightarrow> string list option" where
  "query_of res k =
     (case res of
        Some (Ok (r, w)) \<Rightarrow> (case u r of None \<Rightarrow> None | Some a \<Rightarrow> Some (RawQuery (urls w a) k))
      | _ \<Rightarrow> None)"

text \<open>Chaining: \<^verbatim>\<open>x.Params(...)\<close> on what an earlier operation returned.\<close>

definition then_Params ::
  "string list \<Rightarrow> (Request \<times> world) outcome option \<Rightarrow> (Request \<times> world) outcome option" where
  "then_Params attr res =
     (case res of
        Some (Ok (r, w)) \<Rightarrow> Params attr r w
      | other \<Rightarrow> other)"

text \<open>
  \<open>Fetch\<close> gets as far as the transport call: no latched error, a context that is not
  done, a wire request materialised without error or panic, and a client.
\<close>

definition reaches_transport :: "env \<Rightarrow> Request \<Rightarrow> world \<Rightarrow> bool" where
  "reaches_transport ev r w =
     (err r = None \<and> ctx_Err (ctx r) = None \<and>
      (case makeRequest ev r w of
         Ok (r1, None) \<Rightarrow> client r1 \<noteq> None
       | _ \<Rightarrow> False))"

text \<open>The response that the transport returns to the call that \<open>Fetch\<close> makes, if any.\<close>

definition transport_response :: "env \<Rightarrow> Request \<Rightarrow> world \<Rightarrow> response option" where
  "transport_response ev r w =
     (if err r = None \<and> ctx_Err (ctx r) = None then
        (case makeRequest ev r w of
           Ok (r1, None) \<Rightarrow>
             (case request r1 w of
                Ok ((resp, None), w1) \<Rightarrow> resp
              | _ \<Rightarrow> None)
         | _ \<Rightarrow> None)
      else None)"

text \<open>
  What decoding the stream gives for the descriptor's destination: the value, and the
  error of the decoder.
\<close>

definition decode_body :: "env \<Rightarrow> Request \<Rightarrow> reader \<Rightarrow> go_value" where
  "decode_body ev r rdr =
     (if isJson r then fst (json_Decode ev (resultType r) rdr)
      else (case any (TPtr (resultType r)) (zero_value (resultType r)) (fst rdr) of
              Ok (t, ae) \<Rightarrow> t
            | Panic msg \<Rightarrow> zero_value (resultType r)))"

definition decode_err :: "env \<Rightarrow> Request \<Rightarrow> reader \<Rightarrow> error option" where
  "decode_err ev r rdr =
     (if isJson r then fst (snd (json_Decode ev (resultType r) rdr)) else None)"

subsection \<open>A stub environment\<close>

text \<open>
  A transport that answers every call with the same response, and stand-ins for the
  library functions: a URL parser that rejects \<^verbatim>\<open>":"\<close> (no protocol scheme) and knows one
  link with a repeated query key, a request constructor that accepts every method, a
  gzip reader that fails on an empty stream, and a JSON decoder that knows the two
  boolean literals.
\<close>

definition w0 :: world where
  "w0 = \<lparr>hmaps = (\<lambda>a. Map.empty),
         urls = (\<lambda>a. \<lparr>Base = [], Path = [], RawQuery = (\<lambda>k. [])\<rparr>),
         fresh = 0, calls = 0, sleeps = []\<rparr>"

definition stub_Parse :: "string \<Rightarrow> error + url" where
  "stub_Parse link =
     (if link = '':'' then Inl (Error ''missing protocol scheme'')
      else if link = ''http://example.test/get?a=1&a=2'' then
        Inr \<lparr>Base = ''http://example.test'', Path = ''/get'',
             RawQuery = (\<lambda>k. [])(''a'' := [''1'', ''2''])\<rparr>
      else Inr \<lparr>Base = link, Path = [], RawQuery = (\<lambda>k. [])\<rparr>)"

definition stub_NewRequest :: "string \<Rightarrow> url \<Rightarrow> bytes option \<Rightarrow> error + http_request" where
  "stub_NewRequest m x b =
     Inr \<lparr>req_Method = (if m = [] then ''GET'' else m), req_URL = Some x,
          req_Header = Map.empty, req_Body = b\<rparr>"

definition stub_gzip :: "reader \<Rightarrow> error + reader" where
  "stub_gzip rdr = (if fst rdr = [] then Inl (Error ''EOF'') else Inr rdr)"

definition stub_json :: "go_type \<Rightarrow> reader \<Rightarrow> go_value \<times> error option \<times> bytes" where
  "stub_json ty rdr =
     (if fst rdr = ''true'' then (VBool True, None, fst rdr)
      else if fst rdr = ''false'' then (VBool False, None, fst rdr)
      else (zero_value ty, Some (Error ''invalid character''), fst rdr))"

definition stub_env :: "response \<Rightarrow> env" where
  "stub_env rs =
     \<lparr>url_Parse = stub_Parse, http_NewRequest = stub_NewRequest,
      DefaultClient = HttpClient (\<lambda>n q. (Some rs, None)),
      zstd_NewReader = Inr, brotli_NewReader = (\<lambda>rdr. rdr), gzip_NewReader = stub_gzip,
      json_Decode = stub_json\<rparr>"

definition stub_response :: "int \<Rightarrow> string \<Rightarrow> header_map \<Rightarrow> bytes \<Rightarrow> response" where
  "stub_response code line h b =
     \<lparr>Status = line, StatusCode = code, resp_Header = h, resp_Body = (b, None),
      resp_Cookies = []\<rparr>"

definition resp_200 :: "bytes \<Rightarrow> response" where
  "resp_200 b = stub_response 200 ''200 OK'' Map.empty b"

definition resp_503 :: response where
  "resp_503 = stub_response 503 ''503 Service Unavailable'' Map.empty ''busy''"

definition resp_500_gzip :: response where
  "resp_500_gzip =
     stub_response 500 ''500 Internal Server Error'' [''Content-Encoding'' \<mapsto> [''gzip'']] []"

text \<open>
  The descriptor \<^verbatim>\<open>New[T](context.Background(), "http://example.test/get")\<close> in the
  stub environment, with the store it leaves.
\<close>

definition new0 :: "response \<Rightarrow> go_type \<Rightarrow> Request \<times> world" where
  "new0 rs ty = New (stub_env rs) ty Background ''http://example.test/get'' w0"

text \<open>A caller's policy that repeats every attempt and allows two further attempts.\<close>

definition always_twice :: RetryOptions where
  "always_twice = CustomRetry (\<lambda>resp e. True) (\<lambda>counter. counter \<le> 2)"

text \<open>
  The descriptor \<^verbatim>\<open>New[T](context.Background(), ":")\<close>: the link does not parse, so the
  descriptor is created with its error latched.
\<close>

definition bad0 :: "response \<Rightarrow> go_type \<Rightarrow> Request \<times> world" where
  "bad0 rs ty = New (stub_env rs) ty Background '':'' w0"

text \<open>The descriptor for a link whose query has the key \<^verbatim>\<open>a\<close> twice.\<close>

definition two0 :: "response \<Rightarrow> go_type \<Rightarrow> Request \<times> world" where
  "two0 rs ty = New (stub_env rs) ty Background ''http://example.test/get?a=1&a=2'' w0"

text \<open>
  The retry loop ends for a response that came without an error: the policy does not ask
  to repeat it, or \<open>Sleep\<close> refuses one of the first \<open>n\<close> delays (without a panic
  before it).
\<close>

fun sleep_refuses :: "RetryOptions \<Rightarrow> nat \<Rightarrow> int \<Rightarrow> bool" where
  "sleep_refuses ro 0 cnt = False"
| "sleep_refuses ro (Suc n) cnt =
     (case Sleep ro cnt of
        Panic msg \<Rightarrow> False
      | Ok b \<Rightarrow> (if \<not> b then True else sleep_refuses ro n (cnt + 1)))"

definition loop_ends :: "RetryOptions \<Rightarrow> response \<Rightarrow> nat \<Rightarrow> bool" where
  "loop_ends ro resp n = (\<not> Repeat ro (Some resp) None \<or> sleep_refuses ro n 1)"

text \<open>A caller's policy that repeats every attempt and never refuses a delay.\<close>

definition never_stops :: RetryOptions where
  "never_stops = CustomRetry (\<lambda>resp e. True) (\<lambda>counter. True)"

text \<open>A 503 response whose body is the JSON literal \<^verbatim>\<open>true\<close>.\<close>

definition resp_503_true :: response where
  "resp_503_true = stub_response 503 ''503 Service Unavailable'' Map.empty ''true''"

text \<open>
  The query after \<open>Params\<close>, in the words of the amended claim C9: the values given for a
  key are taken in the order of the argument list, and each of them replaces the values of
  the key when the first of these is not empty, and is appended to them otherwise.
\<close>

fun values_for :: "string \<Rightarrow> string list \<Rightarrow> string list" where
  "values_for k' (k # v # rest) = (if k = k' then v # values_for k' rest else values_for k' rest)"
| "values_for k' rest = []"

definition replace_or_append :: "string list \<Rightarrow> string \<Rightarrow> string list" where
  "replace_or_append vs v =
     (case vs of
        [] \<Rightarrow> [v]
      | x # xs \<Rightarrow> (if x \<noteq> [] then [v] else vs @ [v]))"

definition spec_Params :: "values_t \<Rightarrow> string list \<Rightarrow> values_t" where
  "spec_Params q attr = (\<lambda>k. foldl replace_or_append (q k) (values_for k attr))"

section \<open>Properties\<close>

lemmas stub_defs =
  new0_def bad0_def two0_def New_def stub_env_def stub_Parse_def stub_NewRequest_def stub_gzip_def stub_json_def
  stub_response_def resp_200_def resp_503_def resp_500_gzip_def Background_def w0_def

lemmas engine_defs =
  Fetch_def makeRequest_def fix_method_def attach_def assign_NewRequest_def request_def
  finish_def select_reader_def Header_Get_def tee_def bad_status_def status_error_def
  latch_def contextErr_def cancel_cause_def Let_def

subsection \<open>The retry loop\<close>

text \<open>The loop calls \<open>Sleep\<close> only: the number of transport calls is the same after it.\<close>

lemma retry_loop_calls:
  assumes "retry_loop ro resp e cnt w = Some xw"
  shows "calls (snd xw) = calls w"
proof (rule retry_loop.raw_induct
    [where P = "\<lambda>ro resp e cnt w xw. calls (snd xw) = calls w", OF _ assms])
  fix f :: "RetryOptions \<Rightarrow> response option \<Rightarrow> error option \<Rightarrow> int \<Rightarrow> world
            \<Rightarrow> (loop_exit \<times> world) option"
    and ro resp e cnt and w :: world and xw
  assume IH: "\<And>ro resp e cnt w xw. f ro resp e cnt w = Some xw \<Longrightarrow> calls (snd xw) = calls w"
    and step: "(if Repeat ro resp e then
        (if e \<noteq> None \<or> resp = None then Some (LoopReturn, w)
         else
           (case Sleep ro cnt of
              Panic msg \<Rightarrow> Some (LoopPanic msg, w\<lparr>sleeps := sleeps w @ [cnt]\<rparr>)
            | Ok b \<Rightarrow>
                (if \<not> b then Some (LoopDone, w\<lparr>sleeps := sleeps w @ [cnt]\<rparr>)
                 else f ro resp e (cnt + 1) (w\<lparr>sleeps := sleeps w @ [cnt]\<rparr>))))
      else Some (LoopDone, w)) = Some xw"
  show "calls (snd xw) = calls w"
  proof (cases "Repeat ro resp e \<and> \<not> (e \<noteq> None \<or> resp = None) \<and> Sleep ro cnt = Ok True")
    case True
    with step have "f ro resp e (cnt + 1) (w\<lparr>sleeps := sleeps w @ [cnt]\<rparr>) = Some xw"
      by (auto split: if_splits)
    from IH[OF this] show ?thesis by simp
  next
    case False
    with step show ?thesis
      by (auto split: if_splits outcome.splits)
  qed
qed

text \<open>With a response and no error the loop is never left through its \<^verbatim>\<open>return\<close>.\<close>

lemma retry_loop_no_return:
  assumes "retry_loop ro resp e cnt w = Some xw"
  shows "resp \<noteq> None \<and> e = None \<longrightarrow> fst xw \<noteq> LoopReturn"
proof (rule retry_loop.raw_induct
    [where P = "\<lambda>ro resp e cnt w xw. resp \<noteq> None \<and> e = None \<longrightarrow> fst xw \<noteq> LoopReturn",
     OF _ assms])
  fix f :: "RetryOptions \<Rightarrow> response option \<Rightarrow> error option \<Rightarrow> int \<Rightarrow> world
            \<Rightarrow> (loop_exit \<times> world) option"
    and ro resp e cnt and w :: world and xw
  assume IH: "\<And>ro resp e cnt w xw. f ro resp e cnt w = Some xw \<Longrightarrow>
                resp \<noteq> None \<and> e = None \<longrightarrow> fst xw \<noteq> LoopReturn"
    and step: "(if Repeat ro resp e then
        (if e \<noteq> None \<or> resp = None then Some (LoopReturn, w)
         else
           (case Sleep ro cnt of
              Panic msg \<Rightarrow> Some (LoopPanic msg, w\<lparr>sleeps := sleeps w @ [cnt]\<rparr>)
            | Ok b \<Rightarrow>
                (if \<not> b then Some (LoopDone, w\<lparr>sleeps := sleeps w @ [cnt]\<rparr>)
                 else f ro resp e (cnt + 1) (w\<lparr>sleeps := sleeps w @ [cnt]\<rparr>))))
      else Some (LoopDone, w)) = Some xw"
  show "resp \<noteq> None \<and> e = None \<longrightarrow> fst xw \<noteq> LoopReturn"
  proof (cases "Repeat ro resp e \<and> \<not> (e \<noteq> None \<or> resp = None) \<and> Sleep ro cnt = Ok True")
    case True
    with step have "f ro resp e (cnt + 1) (w\<lparr>sleeps := sleeps w @ [cnt]\<rparr>) = Some xw"
      by (auto split: if_splits)
    from IH[OF this] show ?thesis .
  next
    case False
    with step show ?thesis
      by (auto split: if_splits outcome.splits)
  qed
qed

subsection \<open>What materialisation keeps\<close>

lemma contextErr_fields [simp]:
  "retryOptions (contextErr r e) = retryOptions r"
  "client (contextErr r e) = client r"
  "finalReq (contextErr r e) = finalReq r"
  "isJson (contextErr r e) = isJson r"
  "resultType (contextErr r e) = resultType r"
  "err (contextErr r e) = err r"
  by (simp_all add: contextErr_def split: option.splits)

lemma assign_NewRequest_fields [simp]:
  "retryOptions (assign_NewRequest r res) = retryOptions r"
  "client (assign_NewRequest r res) = client r"
  "isJson (assign_NewRequest r res) = isJson r"
  "resultType (assign_NewRequest r res) = resultType r"
  by (simp_all add: assign_NewRequest_def split: sum.splits)

lemma attach_keeps:
  assumes "attach r w = Ok (r1, x)"
  shows "retryOptions r1 = retryOptions r \<and> client r1 = client r \<and> isJson r1 = isJson r \<and>
         resultType r1 = resultType r \<and> (x = None \<longrightarrow> finalReq r1 \<noteq> None \<and> err r1 = None)"
  using assms by (auto simp: attach_def Let_def split: if_splits option.splits)

lemma fix_method_keeps:
  assumes "fix_method r = Ok r1"
  shows "retryOptions r1 = retryOptions r \<and> client r1 = client r \<and> isJson r1 = isJson r \<and>
         resultType r1 = resultType r"
  using assms by (auto simp: fix_method_def split: if_splits option.splits)

text \<open>
  \<open>makeRequest\<close> leaves the policy, the client and the classification of the result type
  as they were, and when it reports no error the wire request exists.
\<close>

lemma makeRequest_keeps:
  assumes "makeRequest ev r w = Ok (r1, x)"
  shows "retryOptions r1 = retryOptions r \<and> client r1 = client r \<and> isJson r1 = isJson r \<and>
         resultType r1 = resultType r \<and> (x = None \<longrightarrow> finalReq r1 \<noteq> None \<and> err r1 = None)"
proof (cases "length (body r) > 0")
  case True
  with assms obtain r0 a where f: "fix_method r = Ok r0"
    and at: "attach (assign_NewRequest r0
                (http_NewRequest ev (method r0) (urls w a) (Some (body r0)))) w = Ok (r1, x)"
    by (auto simp: makeRequest_def split: outcome.splits option.splits)
  from attach_keeps[OF at] fix_method_keeps[OF f] show ?thesis by simp
next
  case False
  note nobody = this
  show ?thesis
  proof (cases "multipart r")
    case None
    with assms nobody obtain a where
      at: "attach (assign_NewRequest r (http_NewRequest ev (method r) (urls w a) None)) w = Ok (r1, x)"
      by (auto simp: makeRequest_def split: outcome.splits option.splits)
    from attach_keeps[OF at] show ?thesis by simp
  next
    case (Some m0)
    with assms nobody obtain r0 where f: "fix_method r = Ok r0"
      by (auto simp: makeRequest_def split: outcome.splits)
    obtain ctt dt m where mk: "Multipart_make m0 = ((ctt, dt), m)"
      by (metis prod.exhaust)
    let ?r2 = "r0\<lparr>multipart := Some m\<rparr>"
    show ?thesis
    proof (cases "ctx_Err (mp_Ctx m) \<noteq> None")
      case True
      with assms nobody Some f mk have "r1 = contextErr ?r2 (ctx_Err (mp_Ctx m))" "x \<noteq> None"
        by (auto simp: makeRequest_def)
      with fix_method_keeps[OF f] show ?thesis by auto
    next
      case False
      with assms nobody Some f mk obtain a q where
        at: "attach ((assign_NewRequest ?r2 (http_NewRequest ev (method ?r2) (urls w a) (Some dt)))
                \<lparr>finalReq := Some (q\<lparr>req_Header := (req_Header q)(''Content-Type'' \<mapsto> [ctt])\<rparr>)\<rparr>) w
             = Ok (r1, x)"
        by (auto simp: makeRequest_def Let_def split: option.splits)
      from attach_keeps[OF at] fix_method_keeps[OF f] show ?thesis by simp
    qed
  qed
qed

subsection \<open>Transport calls\<close>

text \<open>
  Whatever the policy, a call of \<open>Fetch\<close> that ends has called the transport once if it
  got as far as the transport call, and not at all otherwise.
\<close>

lemma Fetch_calls_any_policy:
  assumes "Fetch ev r w = Some res"
  shows "calls (result_world res) = calls w + (if reaches_transport ev r w then 1 else 0)"
proof (cases "err r = None \<and> ctx_Err (ctx r) = None")
  case False
  with assms show ?thesis
    by (auto simp: Fetch_def reaches_transport_def Let_def split: if_splits)
next
  case True
  note ok = this
  show ?thesis
  proof (cases "makeRequest ev r w")
    case (Panic msg)
    with ok assms show ?thesis
      by (auto simp: Fetch_def reaches_transport_def Let_def)
  next
    case (Ok p)
    obtain r1 x where p: "p = (r1, x)" by (cases p)
    from makeRequest_keeps[OF Ok[unfolded p]]
    have k: "x = None \<Longrightarrow> finalReq r1 \<noteq> None" by simp
    show ?thesis
    proof (cases x)
      case (Some e)
      with ok Ok p assms show ?thesis
        by (auto simp: Fetch_def reaches_transport_def Let_def)
    next
      case None
      from k[OF None] obtain q where q: "finalReq r1 = Some q" by auto
      show ?thesis
      proof (cases "client r1")
        case None': None
        with ok Ok p None q assms show ?thesis
          by (auto simp: Fetch_def reaches_transport_def Let_def request_def)
      next
        case (Some c)
        obtain resp e where d: "Do c (calls w) q = (resp, e)" by (cases "Do c (calls w) q")
        define resp' where "resp' = (if e \<noteq> None then None else resp)"
        let ?w1 = "w\<lparr>calls := calls w + 1\<rparr>"
        let ?r2 = "r1\<lparr>err := e\<rparr>"
        have rq: "request r1 w = Ok ((resp', e), ?w1)"
          using q Some d by (auto simp: request_def resp'_def)
        from assms ok Ok p None rq obtain x w2 where
          lp: "retry_loop (retryOptions r1) resp' e 1 ?w1 = Some (x, w2)"
          by (auto simp: Fetch_def Let_def split: option.splits)
        from retry_loop_calls[OF lp] have c2: "calls w2 = calls w + 1" by simp
        have rt: "reaches_transport ev r w"
          using ok Ok p None Some by (simp add: reaches_transport_def)
        have fin: "result_world (finish ev r0 rs w2) = w2" for r0 rs
          by (auto simp: finish_def Let_def split: sum.splits prod.splits outcome.splits)
        from assms ok Ok p None rq lp have "result_world res = w2"
          by (cases x; cases resp')
             (auto simp: Fetch_def Let_def fin split: option.splits)
        with c2 rt show ?thesis by simp
      qed
    qed
  qed
qed

text \<open>
  C1. The claim: with a policy whose \<open>Repeat\<close> holds and whose \<open>Sleep\<close> allows N further
  attempts, \<open>Fetch\<close> calls the transport N+1 times. The code at such an input, N = 2, the
  transport answering 503 every time: \<open>Sleep\<close> is called with 1, 2 and 3 and refuses the
  third time, and the transport has been called once (as the lemma above says for every
  policy).
\<close>

theorem Fetch_retry_calls_transport_once:
  "Repeat always_twice (Some resp_503) None \<and>
   Sleep always_twice 1 = Ok True \<and> Sleep always_twice 2 = Ok True \<and>
   Sleep always_twice 3 = Ok False \<and>
   calls (snd (new0 resp_503 TString)) = 0 \<and>
   calls_after (Fetch (stub_env resp_503) (Retry always_twice (fst (new0 resp_503 TString)))
                  (snd (new0 resp_503 TString))) = Some 1 \<and>
   sleeps_after (Fetch (stub_env resp_503) (Retry always_twice (fst (new0 resp_503 TString)))
                   (snd (new0 resp_503 TString))) = Some [1, 2, 3]"
  by (simp add: stub_defs engine_defs Retry_def always_twice_def retry_loop.simps
      calls_after_def sleeps_after_def)

text \<open>
  C10, as amended. For every descriptor whose policy is the default one that \<open>New\<close>
  installs, \<open>Fetch\<close> returns or panics (it does not run forever), never calls \<open>Sleep\<close>, and
  calls the transport exactly once when it gets as far as the transport call and not at
  all otherwise.
\<close>

theorem Fetch_default_policy_one_call:
  assumes "retryOptions r = emptyOptions"
  shows "calls_after (Fetch ev r w) = Some (calls w + (if reaches_transport ev r w then 1 else 0)) \<and>
         sleeps_after (Fetch ev r w) = Some (sleeps w)"
proof (cases "err r = None \<and> ctx_Err (ctx r) = None")
  case False
  then show ?thesis
    by (auto simp: Fetch_def reaches_transport_def Let_def calls_after_def sleeps_after_def)
next
  case True
  note ok = this
  show ?thesis
  proof (cases "makeRequest ev r w")
    case (Panic msg)
    with ok show ?thesis
      by (simp add: Fetch_def reaches_transport_def Let_def calls_after_def sleeps_after_def)
  next
    case (Ok p)
    obtain r1 x where p: "p = (r1, x)" by (cases p)
    from makeRequest_keeps[OF Ok[unfolded p]] assms
    have k: "retryOptions r1 = emptyOptions" "x = None \<Longrightarrow> finalReq r1 \<noteq> None" by simp_all
    show ?thesis
    proof (cases x)
      case (Some e)
      with ok Ok p show ?thesis
        by (simp add: Fetch_def reaches_transport_def Let_def calls_after_def sleeps_after_def)
    next
      case None
      from k(2)[OF None] obtain q where q: "finalReq r1 = Some q" by auto
      show ?thesis
      proof (cases "client r1")
        case None': None
        with ok Ok p None q show ?thesis
          by (simp add: Fetch_def reaches_transport_def Let_def request_def calls_after_def
              sleeps_after_def)
      next
        case (Some c)
        obtain resp e where d: "Do c (calls w) q = (resp, e)" by (cases "Do c (calls w) q")
        with ok Ok p None q Some k(1) show ?thesis
          by (cases resp)
             (auto simp: Fetch_def reaches_transport_def Let_def request_def retry_loop.simps
               emptyOptions_Repeat_def finish_def latch_def calls_after_def sleeps_after_def
               split: sum.splits prod.splits outcome.splits)
      qed
    qed
  qed
qed

text \<open>The theorem at a fresh descriptor: one transport call, no call of \<open>Sleep\<close>.\<close>

theorem Fetch_default_policy_one_call_witness:
  "retryOptions (fst (new0 resp_503 TString)) = emptyOptions \<and>
   reaches_transport (stub_env resp_503) (fst (new0 resp_503 TString)) (snd (new0 resp_503 TString)) \<and>
   calls (snd (new0 resp_503 TString)) = 0 \<and>
   calls_after (Fetch (stub_env resp_503) (fst (new0 resp_503 TString)) (snd (new0 resp_503 TString)))
     = Some 1 \<and>
   sleeps_after (Fetch (stub_env resp_503) (fst (new0 resp_503 TString)) (snd (new0 resp_503 TString)))
     = Some []"
proof -
  have h: "retryOptions (fst (new0 resp_503 TString)) = emptyOptions"
    by (simp add: stub_defs)
  have rt: "reaches_transport (stub_env resp_503) (fst (new0 resp_503 TString))
              (snd (new0 resp_503 TString))"
    by (simp add: stub_defs reaches_transport_def engine_defs)
  have c: "calls (snd (new0 resp_503 TString)) = 0" "sleeps (snd (new0 resp_503 TString)) = []"
    by (simp_all add: stub_defs)
  from Fetch_default_policy_one_call[OF h, of "stub_env resp_503" "snd (new0 resp_503 TString)"]
    h rt c show ?thesis by simp
qed

text \<open>
  C10 as stated (exactly one transport call for every descriptor with the default policy)
  fails on a descriptor whose link did not parse: \<open>Fetch\<close> returns the latched error and
  the transport is not called.
\<close>

theorem Fetch_default_policy_errored_counterexample:
  "retryOptions (fst (bad0 resp_503 TString)) = emptyOptions \<and>
   calls (snd (bad0 resp_503 TString)) = 0 \<and>
   calls_after (Fetch (stub_env resp_503) (fst (bad0 resp_503 TString)) (snd (bad0 resp_503 TString)))
     = Some 0"
  by (simp add: stub_defs Fetch_def contextErr_def cancel_cause_def Let_def calls_after_def)

subsection \<open>The default retry policy\<close>

text \<open>
  C8. The claim: \<open>Repeat\<close> of \<open>DefaultRetryOptions\<close> holds for a response whose status code
  is in the status-code list, a nil error and an empty error list. The code: for a nil
  error \<open>inHttpError\<close> is false, and with a response \<open>Repeat\<close> is a conjunction with it, so
  \<open>Repeat\<close> is false for every response that comes without an error, whatever the lists;
  so it is for the list 503, a 503 response and no error list.
\<close>

theorem Repeat_false_for_response_without_error:
  "DefaultRetryOptions_Repeat d (Some rs) None = False \<and>
   inStatusCode \<lparr>Count = 3, HttpErrors = [], HttpStatusCodes = [503]\<rparr> (StatusCode resp_503) \<and>
   Repeat (DefaultRetry \<lparr>Count = 3, HttpErrors = [], HttpStatusCodes = [503]\<rparr>)
     (Some resp_503) None = False"
  by (simp add: DefaultRetryOptions_Repeat_def inHttpError_def inStatusCode_def resp_503_def
      stub_response_def)

subsection \<open>Configuration operations on a fresh descriptor\<close>

text \<open>
  C7. The claim: \<open>Method\<close> with a string outside the standard set latches an error, and
  \<open>Method\<close> with a standard method sets it without an error, whatever method the descriptor
  held. The code tests the method held so far, not its argument: on a fresh descriptor
  (holding GET) \<open>Method\<close> with the string BOGUS latches nothing and stores BOGUS, and the
  next call, with the standard method PUT, latches the error.
\<close>

theorem Method_tests_previous_method:
  "\<not> List.member standard_methods ''BOGUS'' \<and>
   err (Method ''BOGUS'' (fst (new0 rs ty))) = None \<and>
   ctx_Err (ctx (Method ''BOGUS'' (fst (new0 rs ty)))) = None \<and>
   method (Method ''BOGUS'' (fst (new0 rs ty))) = ''BOGUS'' \<and>
   List.member standard_methods ''PUT'' \<and>
   err (Method ''PUT'' (Method ''BOGUS'' (fst (new0 rs ty)))) = Some (Error ''method incorrect'') \<and>
   ctx_Err (ctx (Method ''PUT'' (Method ''BOGUS'' (fst (new0 rs ty))))) = Some Canceled"
  by (simp add: stub_defs Method_def standard_methods_def contextErr_def cancel_cause_def Let_def)

text \<open>
  C2. The claim: once the error slot is set, every configuration operation, \<open>Cookie\<close>
  included, returns the descriptor unchanged, and \<open>Fetch\<close> returns the error without a
  transport call. The code on a descriptor created with a link that does not parse (error
  latched, context cancelled): \<open>Method\<close> and \<open>BodyRaw\<close> leave it as it is, \<open>Fetch\<close> returns
  the error and calls nothing, but \<open>Cookie\<close>, which has no guard, replaces the cookie list.
\<close>

theorem Cookie_changes_errored_descriptor:
  "err (fst (bad0 rs ty)) = Some (Error ''missing protocol scheme'') \<and>
   ctx_Err (ctx (fst (bad0 rs ty))) = Some Canceled \<and>
   Method ''PUT'' (fst (bad0 rs ty)) = fst (bad0 rs ty) \<and>
   BodyRaw ''x'' (fst (bad0 rs ty)) = fst (bad0 rs ty) \<and>
   Fetch (stub_env rs) (fst (bad0 rs ty)) (snd (bad0 rs ty)) =
     Some (Returned (zero_value ty) (Some (Error ''missing protocol scheme'')) (fst (bad0 rs ty))
             (snd (bad0 rs ty))) \<and>
   cookie (fst (bad0 rs ty)) = [] \<and>
   cookie (Cookie [(''sid'', ''1'')] (fst (bad0 rs ty))) = [(''sid'', ''1'')] \<and>
   Cookie [(''sid'', ''1'')] (fst (bad0 rs ty)) \<noteq> fst (bad0 rs ty)"
proof -
  have c: "cookie (fst (bad0 rs ty)) = []"
    and c': "cookie (Cookie [(''sid'', ''1'')] (fst (bad0 rs ty))) = [(''sid'', ''1'')]"
    by (simp_all add: stub_defs Cookie_def contextErr_def cancel_cause_def Let_def)
  have "Cookie [(''sid'', ''1'')] (fst (bad0 rs ty)) \<noteq> fst (bad0 rs ty)"
  proof
    assume "Cookie [(''sid'', ''1'')] (fst (bad0 rs ty)) = fst (bad0 rs ty)"
    then have "cookie (Cookie [(''sid'', ''1'')] (fst (bad0 rs ty))) = cookie (fst (bad0 rs ty))"
      by simp
    with c c' show False by simp
  qed
  moreover have "err (fst (bad0 rs ty)) = Some (Error ''missing protocol scheme'')"
    and "ctx_Err (ctx (fst (bad0 rs ty))) = Some Canceled"
    by (simp_all add: stub_defs contextErr_def cancel_cause_def Let_def)
  moreover have "Method ''PUT'' (fst (bad0 rs ty)) = fst (bad0 rs ty)"
    and "BodyRaw ''x'' (fst (bad0 rs ty)) = fst (bad0 rs ty)"
    by (simp_all add: stub_defs Method_def BodyRaw_def contextErr_def cancel_cause_def Let_def)
  moreover have "Fetch (stub_env rs) (fst (bad0 rs ty)) (snd (bad0 rs ty)) =
     Some (Returned (zero_value ty) (Some (Error ''missing protocol scheme'')) (fst (bad0 rs ty))
             (snd (bad0 rs ty)))"
    by (simp add: stub_defs Fetch_def contextErr_def cancel_cause_def Let_def)
  ultimately show ?thesis using c c' by simp
qed

text \<open>
  C3. The claim: the clone has a header map of its own, so adding headers on the clone
  leaves the headers of the original unchanged, and the other way round. The code copies
  the struct, and with it the reference to the one header map: after \<open>Headers\<close> on the
  clone the original has the new header, and after \<open>Headers\<close> on the original the clone
  has it.
\<close>

theorem Clone_shares_header_map:
  "headers (Clone (fst (new0 rs ty))) = headers (fst (new0 rs ty)) \<and>
   hmaps (snd (new0 rs ty)) (headers (fst (new0 rs ty))) ''X-Trace'' = None \<and>
   hmaps (snd (Headers [''X-Trace'', ''1''] (Clone (fst (new0 rs ty))) (snd (new0 rs ty))))
     (headers (fst (new0 rs ty))) ''X-Trace'' = Some [''1''] \<and>
   hmaps (snd (Headers [''X-Trace'', ''1''] (fst (new0 rs ty)) (snd (new0 rs ty))))
     (headers (Clone (fst (new0 rs ty)))) ''X-Trace'' = Some [''1'']"
  by (simp add: stub_defs Clone_def Headers_def map_append_def default_headers_def)

subsection \<open>Materialisation with a body\<close>

text \<open>
  C4. The claim: for a descriptor from \<open>New\<close> with a non-empty raw body and no call of
  \<open>Method\<close>, \<open>Fetch\<close> materialises a wire request with method POST, without fault. The
  code: \<open>BodyRaw\<close> stores POST in the descriptor, but \<open>makeRequest\<close> first reads
  \<^verbatim>\<open>r.finalReq.Method\<close>, and \<open>New\<close> leaves \<open>finalReq\<close> nil: \<open>Fetch\<close> panics before a wire
  request exists, and the transport is not called.
\<close>

theorem Fetch_raw_body_on_new_descriptor_panics:
  "method (BodyRaw ''hello'' (fst (new0 rs ty))) = ''POST'' \<and>
   finalReq (BodyRaw ''hello'' (fst (new0 rs ty))) = None \<and>
   makeRequest (stub_env rs) (BodyRaw ''hello'' (fst (new0 rs ty))) (snd (new0 rs ty)) =
     Panic nil_deref \<and>
   Fetch (stub_env rs) (BodyRaw ''hello'' (fst (new0 rs ty))) (snd (new0 rs ty)) =
     Some (Panicked nil_deref (snd (new0 rs ty)))"
  by (simp add: stub_defs engine_defs BodyRaw_def)

subsection \<open>Decoding by destination type\<close>

text \<open>
  C6. The claim: on a 200 response, the body 42 into an integer destination gives 42, the
  body true into a boolean gives true, the body hello into a text gives hello, and a body
  that is no number gives a decode error for an integer destination. The code: \<open>Fetch\<close>
  passes \<^verbatim>\<open>&t\<close> to \<open>any\<close>, whose dynamic type for an integer destination is \<^verbatim>\<open>*int\<close>; the
  type switch has the case \<^verbatim>\<open>int\<close> but not \<^verbatim>\<open>*int\<close>, so the default case leaves the
  result at zero without an error, for every body. The boolean (decoded as JSON) and the
  text come out as claimed.
\<close>

theorem Fetch_int_destination_stays_zero:
  "any (TPtr TInt) v dt = Ok (v, None) \<and>
   returned (Fetch (stub_env (resp_200 ''42'')) (fst (new0 (resp_200 ''42'') TInt))
               (snd (new0 (resp_200 ''42'') TInt))) = Some (VInt 0, None) \<and>
   returned (Fetch (stub_env (resp_200 ''forty-two'')) (fst (new0 (resp_200 ''forty-two'') TInt))
               (snd (new0 (resp_200 ''forty-two'') TInt))) = Some (VInt 0, None) \<and>
   returned (Fetch (stub_env (resp_200 ''true'')) (fst (new0 (resp_200 ''true'') TBool))
               (snd (new0 (resp_200 ''true'') TBool))) = Some (VBool True, None) \<and>
   returned (Fetch (stub_env (resp_200 ''hello'')) (fst (new0 (resp_200 ''hello'') TString))
               (snd (new0 (resp_200 ''hello'') TString))) = Some (VString ''hello'', None)"
  by (simp add: stub_defs engine_defs returned_def retry_loop.simps emptyOptions_Repeat_def)

subsection \<open>Query parameters\<close>

text \<open>One step of the loop of \<open>Params\<close>, read at a key.\<close>

lemma step_key:
  "(if Values_Get q k \<noteq> [] then Values_Set q k v else Values_Add q k v) k'
     = (if k' = k then replace_or_append (q k) v else q k')"
  by (simp add: Values_Get_def Values_Set_def Values_Add_def replace_or_append_def
      split: list.splits)

text \<open>On a list of even length the loop ends, with the query that the amended claim describes.\<close>

lemma params_loop_even:
  assumes "even (length attr)"
  shows "params_loop q attr = Some (spec_Params q attr)"
  using assms
proof (induction q attr rule: params_loop.induct)
  case (1 q)
  show ?case by (simp add: spec_Params_def)
next
  case (2 q k)
  then show ?case by simp
next
  case (3 q k v rest)
  let ?q1 = "if Values_Get q k \<noteq> [] then Values_Set q k v else Values_Add q k v"
  from 3 have "params_loop ?q1 rest = Some (spec_Params ?q1 rest)" by simp
  moreover have "spec_Params ?q1 rest = spec_Params q (k # v # rest)"
  proof
    fix k'
    show "spec_Params ?q1 rest k' = spec_Params q (k # v # rest) k'"
      unfolding spec_Params_def using step_key[of q k v k'] by simp
  qed
  ultimately show ?case by simp
qed

text \<open>
  C9, as amended. On a descriptor without error, \<open>Params\<close> with any list of pairs returns
  the descriptor, and the values of every key afterwards are those before, changed by the
  values the list gives for that key, in order: a value replaces all the values of a key
  whose first value is not empty, and is appended for a key that is absent or whose first
  value is empty; a key the list does not name keeps its values. So \<open>Params\<close> with the value
  1 and then with the value 2 for the same key leaves exactly the value 2, unless the key
  had values before of which the first was empty.
\<close>

theorem Params_replaces_or_appends:
  assumes "ctx_Err (ctx r) = None" and "u r = Some a" and "even (length attr)"
  shows "Params attr r w =
           Some (Ok (r, w\<lparr>urls := (urls w)(a := (urls w a)
                      \<lparr>RawQuery := spec_Params (RawQuery (urls w a)) attr\<rparr>)\<rparr>)) \<and>
         query_of (Params attr r w) k' =
           Some (foldl replace_or_append (RawQuery (urls w a) k') (values_for k' attr)) \<and>
         query_of (Params [k, v] r w) k' =
           Some (if k' = k then
                   (if Values_Get (RawQuery (urls w a)) k \<noteq> [] then [v]
                    else RawQuery (urls w a) k @ [v])
                 else RawQuery (urls w a) k') \<and>
         query_of (then_Params [k, ''2''] (Params [k, ''1''] r w)) k =
           Some (if RawQuery (urls w a) k \<noteq> [] \<and> Values_Get (RawQuery (urls w a)) k = []
                 then RawQuery (urls w a) k @ [''1'', ''2'']
                 else [''2''])"
proof -
  have ev: "length attr mod 2 = 0" using assms(3) by presburger
  have p: "Params attr r w =
           Some (Ok (r, w\<lparr>urls := (urls w)(a := (urls w a)
                      \<lparr>RawQuery := spec_Params (RawQuery (urls w a)) attr\<rparr>)\<rparr>))"
    using assms(1,2) ev params_loop_even[OF assms(3)]
    by (simp add: Params_def Let_def)
  have q: "query_of (Params attr r w) k' =
           Some (foldl replace_or_append (RawQuery (urls w a) k') (values_for k' attr))"
    using assms(2) by (simp add: p query_of_def spec_Params_def)
  have one: "query_of (Params [k, v] r w) k' =
           Some (if k' = k then
                   (if Values_Get (RawQuery (urls w a)) k \<noteq> [] then [v]
                    else RawQuery (urls w a) k @ [v])
                 else RawQuery (urls w a) k')"
    and two: "query_of (then_Params [k, ''2''] (Params [k, ''1''] r w)) k =
           Some (if RawQuery (urls w a) k \<noteq> [] \<and> Values_Get (RawQuery (urls w a)) k = []
                 then RawQuery (urls w a) k @ [''1'', ''2'']
                 else [''2''])"
    using assms(1,2)
    by (auto simp: Params_def query_of_def then_Params_def Values_Get_def Values_Set_def
        Values_Add_def Let_def split: list.splits)
  from p q one two show ?thesis by simp
qed

text \<open>
  The theorem at a fresh descriptor, whose query is empty: three pairs in one call, two of
  them for the same key, and the two calls of the claim.
\<close>

theorem Params_replaces_or_appends_witness:
  "ctx_Err (ctx (fst (new0 resp_503 TString))) = None \<and>
   u (fst (new0 resp_503 TString)) = Some 1 \<and>
   even (length [''b'', ''3'', ''c'', ''4'', ''b'', ''5'']) \<and>
   query_of (Params [''b'', ''3'', ''c'', ''4'', ''b'', ''5''] (fst (new0 resp_503 TString))
               (snd (new0 resp_503 TString))) ''b'' = Some [''5''] \<and>
   query_of (Params [''b'', ''3'', ''c'', ''4'', ''b'', ''5''] (fst (new0 resp_503 TString))
               (snd (new0 resp_503 TString))) ''c'' = Some [''4''] \<and>
   query_of (Params [''b'', ''3'', ''c'', ''4'', ''b'', ''5''] (fst (new0 resp_503 TString))
               (snd (new0 resp_503 TString))) ''a'' = Some [] \<and>
   query_of (Params [''a'', ''1''] (fst (new0 resp_503 TString)) (snd (new0 resp_503 TString))) ''a''
     = Some [''1''] \<and>
   query_of (then_Params [''a'', ''2'']
               (Params [''a'', ''1''] (fst (new0 resp_503 TString)) (snd (new0 resp_503 TString))))
     ''a'' = Some [''2'']"
proof -
  let ?r = "fst (new0 resp_503 TString)" and ?w = "snd (new0 resp_503 TString)"
  let ?attr = "[''b'', ''3'', ''c'', ''4'', ''b'', ''5'']"
  have h1: "ctx_Err (ctx ?r) = None"
    and h2: "u ?r = Some 1"
    and q: "RawQuery (urls ?w 1) = (\<lambda>k. [])"
    by (simp_all add: stub_defs)
  have h3: "even (length ?attr)" by simp
  note t = Params_replaces_or_appends[OF h1 h2 h3, of ?w]
  have b: "query_of (Params ?attr ?r ?w) ''b'' = Some [''5'']"
    using t[of "''b''" "''a''" "''1''", THEN conjunct2, THEN conjunct1] q
    by (simp add: replace_or_append_def)
  have c: "query_of (Params ?attr ?r ?w) ''c'' = Some [''4'']"
    using t[of "''c''" "''a''" "''1''", THEN conjunct2, THEN conjunct1] q
    by (simp add: replace_or_append_def)
  have a: "query_of (Params ?attr ?r ?w) ''a'' = Some []"
    using t[of "''a''" "''a''" "''1''", THEN conjunct2, THEN conjunct1] q
    by (simp add: replace_or_append_def)
  have one: "query_of (Params [''a'', ''1''] ?r ?w) ''a'' = Some [''1'']"
    using t[of "''a''" "''a''" "''1''", THEN conjunct2, THEN conjunct2, THEN conjunct1] q
    by (simp add: Values_Get_def)
  have two: "query_of (then_Params [''a'', ''2''] (Params [''a'', ''1''] ?r ?w)) ''a''
      = Some [''2'']"
    using t[of "''a''" "''a''" "''1''", THEN conjunct2, THEN conjunct2, THEN conjunct2] q
    by (simp add: Values_Get_def)
  from h1 h2 h3 b c a one two show ?thesis by blast
qed

text \<open>
  C9 as stated (a key that already holds more than one value is appended to) fails on a
  descriptor whose link has the key twice: \<open>Params\<close> replaces both values by the new one.
\<close>

theorem Params_repeated_key_counterexample:
  "query_of (Some (Ok (two0 resp_503 TString))) ''a'' = Some [''1'', ''2''] \<and>
   query_of (Params [''a'', ''3''] (fst (two0 resp_503 TString)) (snd (two0 resp_503 TString))) ''a''
     = Some [''3'']"
  by (simp add: stub_defs query_of_def Params_def Values_Get_def Values_Set_def Values_Add_def)

subsection \<open>Status validation\<close>

text \<open>
  For a destination that \<open>checkType\<close> classifies as not JSON, \<open>any\<close> neither panics nor
  returns an error.
\<close>

lemma any_not_json:
  assumes "\<not> checkType ty"
  shows "\<exists>t. any (TPtr ty) v dt = Ok (t, None)"
  using assms by (induction ty rule: checkType.induct) simp_all

lemma prefix_status_error: "prefix (Status resp) (error_msg (status_error resp x))"
  by (cases x) (simp_all add: status_error_def)

lemma finish_bad_status:
  assumes "err r = None" and "bad_status resp" and "select_reader ev resp = Inr rdr"
    and "isJson r = checkType (resultType r)" and "isJson r \<or> snd rdr = None"
  shows "\<exists>r'. finish ev r resp w =
           Returned (decode_body ev r rdr) (Some (status_error resp (decode_err ev r rdr))) r' w"
proof (cases "isJson r")
  case True
  with assms show ?thesis
    by (simp add: finish_def decode_body_def decode_err_def Let_def split: prod.splits)
next
  case False
  with assms have nj: "\<not> checkType (resultType r)" and rd: "snd rdr = None" by simp_all
  from any_not_json[OF nj] obtain t where
    t: "any (TPtr (resultType r)) (zero_value (resultType r)) (fst rdr) = Ok (t, None)" by blast
  obtain dt re where p: "rdr = (dt, re)" by (cases rdr)
  from False assms(1-3) rd t p show ?thesis
    by (simp add: finish_def decode_body_def decode_err_def Let_def)
qed

text \<open>When the loop ends in the sense of \<open>loop_ends\<close>, it is left normally.\<close>

lemma retry_loop_refuses:
  assumes "sleep_refuses ro n cnt" and "Repeat ro (Some rs) None"
  shows "\<exists>w2. retry_loop ro (Some rs) None cnt w = Some (LoopDone, w2)"
  using assms
proof (induction n arbitrary: cnt w)
  case 0
  then show ?case by simp
next
  case (Suc n)
  show ?case
  proof (cases "Sleep ro cnt")
    case (Panic msg)
    with Suc.prems show ?thesis by simp
  next
    case (Ok b)
    show ?thesis
    proof (cases b)
      case False
      with Ok Suc.prems show ?thesis
        by (subst retry_loop.simps) simp
    next
      case True
      with Ok Suc.prems have "sleep_refuses ro n (cnt + 1)" by simp
      from Suc.IH[OF this Suc.prems(2), of "w\<lparr>sleeps := sleeps w @ [cnt]\<rparr>"]
      obtain w2 where
        "retry_loop ro (Some rs) None (cnt + 1) (w\<lparr>sleeps := sleeps w @ [cnt]\<rparr>)
           = Some (LoopDone, w2)" by blast
      with Ok True Suc.prems(2) show ?thesis
        by (subst retry_loop.simps) simp
    qed
  qed
qed

lemma retry_loop_ends:
  assumes "loop_ends ro rs n"
  shows "\<exists>w2. retry_loop ro (Some rs) None 1 w = Some (LoopDone, w2)"
proof (cases "Repeat ro (Some rs) None")
  case False
  then show ?thesis by (subst retry_loop.simps) simp
next
  case True
  with assms have "sleep_refuses ro n 1" by (simp add: loop_ends_def)
  from retry_loop_refuses[OF this True] show ?thesis .
qed

text \<open>A policy that always repeats and never refuses a delay keeps the loop running.\<close>

lemma retry_loop_never_stops:
  assumes "retry_loop ro resp e cnt w = Some xw"
  shows "\<not> (Repeat ro resp e \<and> e = None \<and> resp \<noteq> None \<and> (\<forall>c. Sleep ro c = Ok True))"
proof (rule retry_loop.raw_induct
    [where P = "\<lambda>ro resp e cnt w xw.
        \<not> (Repeat ro resp e \<and> e = None \<and> resp \<noteq> None \<and> (\<forall>c. Sleep ro c = Ok True))",
     OF _ assms])
  fix f :: "RetryOptions \<Rightarrow> response option \<Rightarrow> error option \<Rightarrow> int \<Rightarrow> world
            \<Rightarrow> (loop_exit \<times> world) option"
    and ro resp e cnt and w :: world and xw
  assume IH: "\<And>ro resp e cnt w xw. f ro resp e cnt w = Some xw \<Longrightarrow>
      \<not> (Repeat ro resp e \<and> e = None \<and> resp \<noteq> None \<and> (\<forall>c. Sleep ro c = Ok True))"
    and step: "(if Repeat ro resp e then
        (if e \<noteq> None \<or> resp = None then Some (LoopReturn, w)
         else
           (case Sleep ro cnt of
              Panic msg \<Rightarrow> Some (LoopPanic msg, w\<lparr>sleeps := sleeps w @ [cnt]\<rparr>)
            | Ok b \<Rightarrow>
                (if \<not> b then Some (LoopDone, w\<lparr>sleeps := sleeps w @ [cnt]\<rparr>)
                 else f ro resp e (cnt + 1) (w\<lparr>sleeps := sleeps w @ [cnt]\<rparr>))))
      else Some (LoopDone, w)) = Some xw"
  show "\<not> (Repeat ro resp e \<and> e = None \<and> resp \<noteq> None \<and> (\<forall>c. Sleep ro c = Ok True))"
  proof
    assume c: "Repeat ro resp e \<and> e = None \<and> resp \<noteq> None \<and> (\<forall>c. Sleep ro c = Ok True)"
    then have "Sleep ro cnt = Ok True" by blast
    with c step have "f ro resp e (cnt + 1) (w\<lparr>sleeps := sleeps w @ [cnt]\<rparr>) = Some xw"
      by (auto split: if_splits)
    from IH[OF this] c show False by blast
  qed
qed

lemma retry_loop_never_stops_None:
  "retry_loop never_stops (Some rs) None cnt w = None"
proof (cases "retry_loop never_stops (Some rs) None cnt w")
  case None
  then show ?thesis .
next
  case (Some xw)
  from retry_loop_never_stops[OF Some] show ?thesis
    by (simp add: never_stops_def)
qed

text \<open>
  C5, as amended. When the transport returns a response with a status outside 200..299,
  the retry loop ends for it, the decompressing reader for it is set up without error and
  the body is read to its end without error (for a destination that is not JSON), then
  \<open>Fetch\<close> returns an error whose message begins with the status line of the response, also
  when decoding succeeded, together with the value that decoding the body gave: decoding
  comes before the status test.
\<close>

theorem Fetch_bad_status_names_status:
  assumes "transport_response ev r w = Some resp"
    and "bad_status resp"
    and "select_reader ev resp = Inr rdr"
    and "isJson r = checkType (resultType r)"
    and "isJson r \<or> snd rdr = None"
    and "loop_ends (retryOptions r) resp n"
  shows "returned (Fetch ev r w) =
           Some (decode_body ev r rdr, Some (status_error resp (decode_err ev r rdr))) \<and>
         prefix (Status resp) (error_msg (status_error resp (decode_err ev r rdr)))"
proof -
  from assms(1) have ok: "err r = None" "ctx_Err (ctx r) = None"
    by (auto simp: transport_response_def split: if_splits)
  from assms(1) ok obtain r1 w1 where mk: "makeRequest ev r w = Ok (r1, None)"
    and rq: "request r1 w = Ok ((Some resp, None), w1)"
    by (auto simp: transport_response_def split: outcome.splits prod.splits option.splits)
  let ?r2 = "r1\<lparr>err := None\<rparr>"
  from makeRequest_keeps[OF mk]
  have k: "isJson ?r2 = isJson r" "resultType ?r2 = resultType r"
    "retryOptions r1 = retryOptions r" by simp_all
  have same: "decode_body ev ?r2 rdr = decode_body ev r rdr"
    "decode_err ev ?r2 rdr = decode_err ev r rdr"
    using k by (simp_all add: decode_body_def decode_err_def split: outcome.splits)
  from retry_loop_ends[OF assms(6), of w1] k(3) obtain w2 where
    lp: "retry_loop (retryOptions r1) (Some resp) None 1 w1 = Some (LoopDone, w2)" by auto
  from finish_bad_status[of ?r2 resp ev rdr w2] same assms(2-5) k
  obtain r' where fin: "finish ev ?r2 resp w2 =
      Returned (decode_body ev r rdr) (Some (status_error resp (decode_err ev r rdr))) r' w2"
    by auto
  from ok mk rq lp fin
  have "returned (Fetch ev r w) =
          Some (decode_body ev r rdr, Some (status_error resp (decode_err ev r rdr)))"
    by (simp add: Fetch_def returned_def Let_def)
  with prefix_status_error show ?thesis by simp
qed

text \<open>
  The theorem at a fresh text descriptor with the default policy, and at a boolean
  descriptor (decoded as JSON) with a policy that allows two delays, each against a
  transport that answers 503.
\<close>

theorem Fetch_bad_status_names_status_witness:
  "transport_response (stub_env resp_503) (fst (new0 resp_503 TString)) (snd (new0 resp_503 TString))
     = Some resp_503 \<and>
   bad_status resp_503 \<and>
   select_reader (stub_env resp_503) resp_503 = Inr (''busy'', None) \<and>
   isJson (fst (new0 resp_503 TString)) = checkType (resultType (fst (new0 resp_503 TString))) \<and>
   \<not> isJson (fst (new0 resp_503 TString)) \<and>
   loop_ends (retryOptions (fst (new0 resp_503 TString))) resp_503 0 \<and>
   returned (Fetch (stub_env resp_503) (fst (new0 resp_503 TString)) (snd (new0 resp_503 TString)))
     = Some (VString ''busy'', Some (Error ''503 Service Unavailable: status code incorrect'')) \<and>
   transport_response (stub_env resp_503_true)
     (Retry always_twice (fst (new0 resp_503_true TBool))) (snd (new0 resp_503_true TBool))
     = Some resp_503_true \<and>
   bad_status resp_503_true \<and>
   select_reader (stub_env resp_503_true) resp_503_true = Inr (''true'', None) \<and>
   isJson (Retry always_twice (fst (new0 resp_503_true TBool))) \<and>
   checkType (resultType (Retry always_twice (fst (new0 resp_503_true TBool)))) \<and>
   Repeat always_twice (Some resp_503_true) None \<and>
   loop_ends (retryOptions (Retry always_twice (fst (new0 resp_503_true TBool)))) resp_503_true 3 \<and>
   returned (Fetch (stub_env resp_503_true) (Retry always_twice (fst (new0 resp_503_true TBool)))
               (snd (new0 resp_503_true TBool)))
     = Some (VBool True, Some (Error ''503 Service Unavailable: status code incorrect'')) \<and>
   prefix (Status resp_503) ''503 Service Unavailable: status code incorrect''"
proof -
  let ?r = "fst (new0 resp_503 TString)" and ?w = "snd (new0 resp_503 TString)"
  let ?ev = "stub_env resp_503"
  have h1: "transport_response ?ev ?r ?w = Some resp_503"
    by (simp add: stub_defs engine_defs transport_response_def)
  have h2: "bad_status resp_503"
    by (simp add: stub_defs bad_status_def)
  have h3: "select_reader ?ev resp_503 = Inr (''busy'', None)"
    by (simp add: stub_defs select_reader_def Header_Get_def)
  have h4: "isJson ?r = checkType (resultType ?r)" and nj: "\<not> isJson ?r"
    by (simp_all add: stub_defs)
  have h5: "isJson ?r \<or> snd (''busy'', None :: error option) = None"
    by simp
  have h6: "loop_ends (retryOptions ?r) resp_503 0"
    by (simp add: stub_defs loop_ends_def emptyOptions_Repeat_def)
  let ?s = "Retry always_twice (fst (new0 resp_503_true TBool))"
  let ?v = "snd (new0 resp_503_true TBool)" and ?eu = "stub_env resp_503_true"
  have g1: "transport_response ?eu ?s ?v = Some resp_503_true"
    by (simp add: stub_defs resp_503_true_def engine_defs transport_response_def Retry_def)
  have g2: "bad_status resp_503_true"
    by (simp add: stub_defs resp_503_true_def bad_status_def)
  have g3: "select_reader ?eu resp_503_true = Inr (''true'', None)"
    by (simp add: stub_defs resp_503_true_def select_reader_def Header_Get_def)
  have g4: "isJson ?s = checkType (resultType ?s)" and j: "isJson ?s"
    and j': "checkType (resultType ?s)"
    by (simp_all add: stub_defs Retry_def)
  have g5: "isJson ?s \<or> snd (''true'', None :: error option) = None"
    by simp
  have rp: "Repeat always_twice (Some resp_503_true) None"
    by (simp add: always_twice_def)
  have g6: "loop_ends (retryOptions ?s) resp_503_true 3"
    by (simp add: stub_defs Retry_def loop_ends_def always_twice_def eval_nat_numeral)
  have d1: "decode_body ?ev ?r (''busy'', None) = VString ''busy''"
    "decode_err ?ev ?r (''busy'', None) = None"
    by (simp_all add: stub_defs decode_body_def decode_err_def)
  have d2: "decode_body ?eu ?s (''true'', None) = VBool True"
    "decode_err ?eu ?s (''true'', None) = None"
    by (simp_all add: stub_defs Retry_def decode_body_def decode_err_def)
  have st: "status_error resp_503 None = Error ''503 Service Unavailable: status code incorrect''"
    "status_error resp_503_true None = Error ''503 Service Unavailable: status code incorrect''"
    "Status resp_503 = ''503 Service Unavailable''"
    by (simp_all add: stub_defs resp_503_true_def status_error_def)
  from Fetch_bad_status_names_status[OF h1 h2 h3 h4 h5 h6]
    Fetch_bad_status_names_status[OF g1 g2 g3 g4 g5 g6]
    h1 h2 h3 h4 nj h6 g1 g2 g3 j j' rp g6 d1 d2 st
  show ?thesis by simp
qed

text \<open>
  C5 as stated (every response with such a status gives an error that names the status)
  fails on a 500 response that declares gzip and has an empty body: the gzip reader cannot
  be set up, and \<open>Fetch\<close> returns that error, which does not name the status. It also fails
  with a policy that repeats a 503 response and never refuses a delay: \<open>Fetch\<close> does not
  return.
\<close>

theorem Fetch_bad_status_counterexample:
  "transport_response (stub_env resp_500_gzip) (fst (new0 resp_500_gzip TString))
     (snd (new0 resp_500_gzip TString)) = Some resp_500_gzip \<and>
   bad_status resp_500_gzip \<and>
   returned (Fetch (stub_env resp_500_gzip) (fst (new0 resp_500_gzip TString))
               (snd (new0 resp_500_gzip TString))) = Some (VString [], Some (Error ''EOF'')) \<and>
   \<not> prefix (Status resp_500_gzip) (error_msg (Error ''EOF'')) \<and>
   transport_response (stub_env resp_503) (Retry never_stops (fst (new0 resp_503 TString)))
     (snd (new0 resp_503 TString)) = Some resp_503 \<and>
   bad_status resp_503 \<and>
   Fetch (stub_env resp_503) (Retry never_stops (fst (new0 resp_503 TString)))
     (snd (new0 resp_503 TString)) = None \<and>
   returned (Fetch (stub_env resp_503) (Retry never_stops (fst (new0 resp_503 TString)))
     (snd (new0 resp_503 TString))) = None"
proof -
  have a: "transport_response (stub_env resp_500_gzip) (fst (new0 resp_500_gzip TString))
     (snd (new0 resp_500_gzip TString)) = Some resp_500_gzip \<and>
   bad_status resp_500_gzip \<and>
   returned (Fetch (stub_env resp_500_gzip) (fst (new0 resp_500_gzip TString))
               (snd (new0 resp_500_gzip TString))) = Some (VString [], Some (Error ''EOF'')) \<and>
   \<not> prefix (Status resp_500_gzip) (error_msg (Error ''EOF''))"
    by (simp add: stub_defs engine_defs transport_response_def returned_def retry_loop.simps
        emptyOptions_Repeat_def)
  have b: "transport_response (stub_env resp_503) (Retry never_stops (fst (new0 resp_503 TString)))
     (snd (new0 resp_503 TString)) = Some resp_503 \<and> bad_status resp_503"
    by (simp add: stub_defs engine_defs transport_response_def Retry_def)
  have c: "Fetch (stub_env resp_503) (Retry never_stops (fst (new0 resp_503 TString)))
     (snd (new0 resp_503 TString)) = None"
    by (simp add: stub_defs engine_defs Retry_def retry_loop_never_stops_None)
  from a b c show ?thesis by (simp add: returned_def)
qed

end
